theory Spec2Isabelle
  imports Complex_Main "HOL-Library.Word"
begin

unbundle bit_operations_syntax

section \<open>Host values of the codec (lib/encoder.js)\<close>

text \<open>
  The encoder dispatches on the runtime shape of a JavaScript value. The shapes it
  distinguishes are the constructors of \<open>jsval\<close>. A Number is a finite value, NaN or an
  infinity; finite values are carried by their exact rational value. A string is a
  sequence of code units in the range 0..255. A Date carries its time value (NaN for an
  invalid date), a Long its 64 bits, an Integer its mathematical value. A plain object
  is the list of its own enumerable properties in enumeration order.
\<close>

type_synonym byte = "8 word"

datatype jsnum = NaN | PosInf | NegInf | Fin rat

datatype jsval =
    Undefined
  | Null
  | Num jsnum
  | Str string
  | Bool bool
  | Buf "byte list"
  | Arr "jsval list"
  | Obj "(string \<times> jsval) list"
  | DateV jsnum
  | LongV "64 word"
  | IntegerV int

text \<open>
  A thrown exception is a value. \<open>TypeError\<close> is the error the encoder itself throws
  (and the one Node 0.12 buffers throw for an out-of-bounds integer write);
  \<open>UnknownType\<close> is the plain Error of decode. \<open>OutsideModel\<close> marks inputs whose
  outcome is decided by library internals that this development does not embed
  (IEEE-754 layout, date parsing, Long.fromString, Integer.fromString, generic type
  names): on these the model says nothing about the source.
\<close>

datatype error = TypeError | RangeError | UnknownType | OutsideModel

text \<open>
  A hint is absent, a numeric code, a name, or a descriptor object
  \<open>{type: ..., subtypes: [...]}\<close>. In a descriptor the \<open>type\<close> field is \<open>None\<close> when it
  is not a number, and \<open>subtypes\<close> is \<open>None\<close> when the field is absent.
\<close>

datatype hint =
    NoHint
  | HNum jsnum
  | HName string
  | HInfo "jsnum option" "hint list option"

subsection \<open>The catalog of type codes (types.dataTypes)\<close>

text \<open>
  Modelled from the spec: the table \<open>dataTypes\<close> of lib/types.js is not part of the
  sources at hand. The names are the catalog of section 6 of the specification; the
  numbers are the option ids of the CQL binary protocol.
\<close>

definition dt_custom :: rat where "dt_custom = 0"
definition dt_ascii :: rat where "dt_ascii = 1"
definition dt_bigint :: rat where "dt_bigint = 2"
definition dt_blob :: rat where "dt_blob = 3"
definition dt_boolean :: rat where "dt_boolean = 4"
definition dt_counter :: rat where "dt_counter = 5"
definition dt_decimal :: rat where "dt_decimal = 6"
definition dt_double :: rat where "dt_double = 7"
definition dt_float :: rat where "dt_float = 8"
definition dt_int :: rat where "dt_int = 9"
definition dt_text :: rat where "dt_text = 10"
definition dt_timestamp :: rat where "dt_timestamp = 11"
definition dt_uuid :: rat where "dt_uuid = 12"
definition dt_varchar :: rat where "dt_varchar = 13"
definition dt_varint :: rat where "dt_varint = 14"
definition dt_timeuuid :: rat where "dt_timeuuid = 15"
definition dt_inet :: rat where "dt_inet = 16"
definition dt_list :: rat where "dt_list = 32"
definition dt_map :: rat where "dt_map = 33"
definition dt_set :: rat where "dt_set = 34"

lemmas dt_defs =
  dt_custom_def dt_ascii_def dt_bigint_def dt_blob_def dt_boolean_def dt_counter_def
  dt_decimal_def dt_double_def dt_float_def dt_int_def dt_text_def dt_timestamp_def
  dt_uuid_def dt_varchar_def dt_varint_def dt_timeuuid_def dt_inet_def dt_list_def
  dt_map_def dt_set_def

section \<open>JavaScript conversions used by the encoder\<close>

text \<open>
  The truthiness test of \<open>if (x)\<close>, \<open>!x\<close> and \<open>x ? a : b\<close>.
\<close>

fun truthy :: "jsval \<Rightarrow> bool" where
  "truthy Undefined = False"
| "truthy Null = False"
| "truthy (Bool b) = b"
| "truthy (Num NaN) = False"
| "truthy (Num (Fin q)) = (q \<noteq> 0)"
| "truthy (Num _) = True"
| "truthy (Str s) = (s \<noteq> [])"
| "truthy _ = True"

text \<open>
  ToNumber on strings (ECMAScript 5, 9.3.1): white space is trimmed, the empty string
  is 0, then a hexadecimal integer literal, or an optionally signed decimal literal or
  \<open>Infinity\<close>; everything else is NaN. The value of a literal is exact here: a literal
  that is not an integer of magnitude at most \<open>2 ^ 53\<close> would have to be rounded to a
  double and is left outside the model, as are the prefixes \<open>0b\<close> and \<open>0o\<close>, which
  ECMAScript 2015 added.
\<close>

definition is_ws :: "char \<Rightarrow> bool" where
  "is_ws c = (of_char c \<in> {9, 10, 11, 12, 13, 32, 160 :: nat})"

definition trim :: "string \<Rightarrow> string" where
  "trim s = dropWhile is_ws (rev (dropWhile is_ws (rev s)))"

definition is_digit :: "char \<Rightarrow> bool" where
  "is_digit c = (48 \<le> (of_char c :: nat) \<and> (of_char c :: nat) \<le> 57)"

definition hex_val :: "char \<Rightarrow> nat option" where
  "hex_val c = (let n = (of_char c :: nat) in
     if 48 \<le> n \<and> n \<le> 57 then Some (n - 48)
     else if 97 \<le> n \<and> n \<le> 102 then Some (n - 87)
     else if 65 \<le> n \<and> n \<le> 70 then Some (n - 55)
     else None)"

definition is_hex :: "char \<Rightarrow> bool" where
  "is_hex c = (hex_val c \<noteq> None)"

definition dec_value :: "string \<Rightarrow> nat" where
  "dec_value s = foldl (\<lambda>a c. 10 * a + ((of_char c :: nat) - 48)) 0 s"

definition hex_value :: "string \<Rightarrow> nat" where
  "hex_value s = foldl (\<lambda>a c. 16 * a + the (hex_val c)) 0 s"

text \<open>The exponent part of a decimal literal: absent, or \<open>e\<close>, a sign, digits.\<close>

definition exponent_part :: "string \<Rightarrow> int option" where
  "exponent_part s = (case s of
       [] \<Rightarrow> Some 0
     | c # t \<Rightarrow>
         if c = CHR ''e'' \<or> c = CHR ''E'' then
           (case t of
              [] \<Rightarrow> None
            | d # u \<Rightarrow>
                if d = CHR ''-'' then
                  (if u \<noteq> [] \<and> list_all is_digit u then Some (- int (dec_value u)) else None)
                else if d = CHR ''+'' then
                  (if u \<noteq> [] \<and> list_all is_digit u then Some (int (dec_value u)) else None)
                else if list_all is_digit t then Some (int (dec_value t)) else None)
         else None)"

definition scale10 :: "rat \<Rightarrow> int \<Rightarrow> rat" where
  "scale10 q e = (if 0 \<le> e then q * 10 ^ nat e else q / 10 ^ nat (- e))"

text \<open>StrUnsignedDecimalLiteral without \<open>Infinity\<close>: its exact value, if it is one.\<close>

definition unsigned_decimal :: "string \<Rightarrow> rat option" where
  "unsigned_decimal s =
     (let ip = takeWhile is_digit s; r = dropWhile is_digit s;
          fp = (case r of [] \<Rightarrow> [] | c # t \<Rightarrow> if c = CHR ''.'' then takeWhile is_digit t else []);
          r2 = (case r of [] \<Rightarrow> [] | c # t \<Rightarrow> if c = CHR ''.'' then dropWhile is_digit t else r)
      in if ip = [] \<and> fp = [] then None
         else (case exponent_part r2 of
                 None \<Rightarrow> None
               | Some e \<Rightarrow>
                   Some (scale10 (of_nat (dec_value ip)
                                  + of_nat (dec_value fp) / 10 ^ length fp) e)))"

definition exact_double :: "rat \<Rightarrow> error + jsnum" where
  "exact_double q =
     (if q = of_int \<lfloor>q\<rfloor> \<and> \<bar>q\<bar> \<le> 2 ^ 53 then Inr (Fin q) else Inl OutsideModel)"

definition str_decimal :: "string \<Rightarrow> error + jsnum" where
  "str_decimal s =
     (case s of
        [] \<Rightarrow> Inr NaN
      | c # t \<Rightarrow>
          if c = CHR ''-'' then
            (if t = ''Infinity'' then Inr NegInf
             else case unsigned_decimal t of None \<Rightarrow> Inr NaN | Some q \<Rightarrow> exact_double (- q))
          else if c = CHR ''+'' then
            (if t = ''Infinity'' then Inr PosInf
             else case unsigned_decimal t of None \<Rightarrow> Inr NaN | Some q \<Rightarrow> exact_double q)
          else
            (if s = ''Infinity'' then Inr PosInf
             else case unsigned_decimal s of None \<Rightarrow> Inr NaN | Some q \<Rightarrow> exact_double q))"

definition str_to_number :: "string \<Rightarrow> error + jsnum" where
  "str_to_number s0 =
     (let s = trim s0 in
      if s = [] then Inr (Fin 0)
      else if take 2 s \<in> {''0x'', ''0X''} then
        (if drop 2 s \<noteq> [] \<and> list_all is_hex (drop 2 s)
         then exact_double (of_nat (hex_value (drop 2 s))) else Inr NaN)
      else if take 2 s \<in> {''0b'', ''0B'', ''0o'', ''0O''} then Inl OutsideModel
      else str_decimal s)"

text \<open>
  ToNumber on the values the encoder can be handed. A Date converts through
  \<open>valueOf\<close> to its time value. A plain object converts through
  \<open>"[object Object]"\<close> to NaN, unless it has a \<open>toString\<close> property of its own,
  which is no function here, so that the conversion throws a TypeError. The empty
  array and the empty Buffer convert through \<open>""\<close> to 0. The conversions of the
  remaining shapes go through the \<open>toString\<close> of library objects and are outside
  the model.
\<close>

fun to_number :: "jsval \<Rightarrow> error + jsnum" where
  "to_number Undefined = Inr NaN"
| "to_number Null = Inr (Fin 0)"
| "to_number (Bool b) = Inr (Fin (if b then 1 else 0))"
| "to_number (Num n) = Inr n"
| "to_number (Str s) = str_to_number s"
| "to_number (DateV t) = Inr t"
| "to_number (Obj kvs) =
     (if ''toString'' \<in> fst ` set kvs then Inl TypeError else Inr NaN)"
| "to_number (Arr xs) = (if xs = [] then Inr (Fin 0) else Inl OutsideModel)"
| "to_number (Buf bs) = (if bs = [] then Inr (Fin 0) else Inl OutsideModel)"
| "to_number _ = Inl OutsideModel"

text \<open>The global \<open>isNaN(x)\<close>: ToNumber, then the test for NaN.\<close>

definition isNaN :: "jsval \<Rightarrow> error + bool" where
  "isNaN v = (case to_number v of Inl e \<Rightarrow> Inl e | Inr n \<Rightarrow> Inr (n = NaN))"

text \<open>Truncation towards zero, the integer part that ToInt32 and ToUint32 keep.\<close>

definition trunc :: "rat \<Rightarrow> int" where
  "trunc q = (if 0 \<le> q then \<lfloor>q\<rfloor> else - \<lfloor>- q\<rfloor>)"

section \<open>Buffer writes (Node 0.12)\<close>

text \<open>
  \<open>buf.writeUInt16BE(value, 0)\<close> and \<open>buf.writeInt32BE(value, 0)\<close> on a fresh buffer
  of exactly that size: the value is converted with unary plus, a value above the
  maximum or below the minimum throws a TypeError, and the bytes are those of
  \<open>value >>> 8\<close>, \<open>value\<close> and so on, each stored modulo 256. NaN passes the bounds
  check (both comparisons are false) and is written as zeros.
\<close>

definition be16 :: "int \<Rightarrow> byte list" where
  "be16 i = [of_int (i div 256), of_int i]"

definition be32 :: "int \<Rightarrow> byte list" where
  "be32 i = [of_int (i div 16777216), of_int (i div 65536), of_int (i div 256), of_int i]"

definition writeUInt16BE :: "jsnum \<Rightarrow> error + byte list" where
  "writeUInt16BE n = (case n of
       NaN \<Rightarrow> Inr (be16 0)
     | PosInf \<Rightarrow> Inl TypeError
     | NegInf \<Rightarrow> Inl TypeError
     | Fin q \<Rightarrow> if q > 65535 \<or> q < 0 then Inl TypeError else Inr (be16 (trunc q)))"

definition writeInt32BE :: "jsnum \<Rightarrow> error + byte list" where
  "writeInt32BE n = (case n of
       NaN \<Rightarrow> Inr (be32 0)
     | PosInf \<Rightarrow> Inl TypeError
     | NegInf \<Rightarrow> Inl TypeError
     | Fin q \<Rightarrow> if q > 2147483647 \<or> q < - 2147483648 then Inl TypeError
               else Inr (be32 (trunc q)))"


section \<open>Library values: Long, Integer, UUID and string encodings\<close>

text \<open>
  Modelled from the spec: \<open>Long.toBuffer\<close> and \<open>Long.fromBuffer\<close> of lib/types.js are
  not part of the sources at hand. The specification gives bigint as 8 bytes,
  big-endian, two's complement. A buffer shorter than 8 bytes is outside the model.
\<close>

definition Long_toBuffer :: "64 word \<Rightarrow> byte list" where
  "Long_toBuffer w = map (\<lambda>k. ucast (drop_bit (8 * k) w)) [7, 6, 5, 4, 3, 2, 1, 0]"


text \<open>
  \<open>Long.fromNumber\<close> of the long package: NaN and the infinities give zero, values
  beyond the 64-bit range saturate, everything else is truncated towards zero.
\<close>

definition Long_fromNumber :: "jsnum \<Rightarrow> 64 word" where
  "Long_fromNumber n = (case n of
       Fin q \<Rightarrow> if q \<le> - (2 ^ 63) then of_int (- (2 ^ 63))
                else if 2 ^ 63 \<le> q + 1 then of_int (2 ^ 63 - 1)
                else of_int (trunc q)
     | _ \<Rightarrow> 0)"

text \<open>
  Modelled from the spec: \<open>Integer.toBuffer\<close>, \<open>Integer.fromBuffer\<close> and
  \<open>Integer.fromNumber\<close> of lib/types.js are not part of the sources at hand. The
  specification gives varint as the minimal two's-complement big-endian bytes. The
  empty buffer is outside the model.
\<close>

function Integer_toBuffer :: "int \<Rightarrow> byte list" where
  "Integer_toBuffer i =
     (if - 128 \<le> i \<and> i < 128 then [of_int i]
      else Integer_toBuffer (i div 256) @ [of_int (i mod 256)])"
  by pat_completeness auto
termination
  by (relation "measure (\<lambda>i. nat \<bar>i\<bar>)") auto

declare Integer_toBuffer.simps [simp del]


definition Integer_fromNumber :: "jsnum \<Rightarrow> int" where
  "Integer_fromNumber n = (case n of Fin q \<Rightarrow> trunc q | _ \<Rightarrow> 0)"

text \<open>The lower-casing of ASCII letters, as \<open>toLowerCase\<close> does on them.\<close>

definition lower :: "string \<Rightarrow> string" where
  "lower s = map (\<lambda>c. let n = (of_char c :: nat) in
                      if 65 \<le> n \<and> n \<le> 90 then char_of (n + 32) else c) s"

text \<open>
  \<open>uuid.parse\<close> and \<open>uuid.unparse\<close> of node-uuid. \<open>parse\<close> lower-cases the string,
  stores every successive pair of hexadecimal digits as a byte, stops after 16 and
  fills up with zeros. \<open>unparse\<close> prints the first 16 bytes as lower-case hexadecimal
  in groups of 8-4-4-4-12; on a shorter buffer it is outside the model.
\<close>

definition hex_byte :: "char \<Rightarrow> char \<Rightarrow> byte" where
  "hex_byte a b = of_nat (16 * the (hex_val a) + the (hex_val b))"

fun hex_pairs :: "string \<Rightarrow> byte list" where
  "hex_pairs (a # b # r) =
     (if is_hex a \<and> is_hex b then hex_byte a b # hex_pairs r else hex_pairs (b # r))"
| "hex_pairs _ = []"

definition uuid_parse :: "string \<Rightarrow> byte list" where
  "uuid_parse s =
     (let bs = take 16 (hex_pairs (lower s)) in bs @ replicate (16 - length bs) 0)"





text \<open>
  \<open>new Buffer(str, 'utf8')\<close>, \<open>new Buffer(str, 'ascii')\<close> and the two \<open>toString\<close>
  on strings of code units below 256: UTF-8 takes one byte below 128 and two bytes
  from there on; the ascii writer stores the code unit, the ascii reader clears the
  high bit. Decoding UTF-8 that leaves the range of code units below 256, or that is
  malformed, is outside the model.
\<close>

definition utf8_encode :: "string \<Rightarrow> byte list" where
  "utf8_encode s = concat (map (\<lambda>c. let n = (of_char c :: nat) in
       if n < 128 then [of_nat n] else [of_nat (192 + n div 64), of_nat (128 + n mod 64)]) s)"


definition ascii_encode :: "string \<Rightarrow> byte list" where
  "ascii_encode s = map (\<lambda>c. of_nat (of_char c :: nat)) s"


section \<open>Type information\<close>

text \<open>
  A resolved descriptor \<open>{type: ..., subtypes: ...}\<close>: the \<open>type\<close> field (\<open>None\<close>
  when it is not a number) and the \<open>subtypes\<close> field (\<open>None\<close> when absent).
\<close>

type_synonym typeinfo = "jsnum option \<times> hint list option"

text \<open>
  Modelled from the spec: \<open>dataTypes.getByName\<close> of lib/types.js is not part of the
  sources at hand. Section 4.1 of the specification: names are matched
  case-insensitively, an unknown name fails with the type error. The generic syntax
  \<open>name<sub,...>\<close> is not embedded: such a name is outside the model.
\<close>

definition catalog :: "(string \<times> rat) list" where
  "catalog =
     [(''custom'', dt_custom), (''ascii'', dt_ascii), (''bigint'', dt_bigint),
      (''blob'', dt_blob), (''boolean'', dt_boolean), (''counter'', dt_counter),
      (''decimal'', dt_decimal), (''double'', dt_double), (''float'', dt_float),
      (''int'', dt_int), (''text'', dt_text), (''timestamp'', dt_timestamp),
      (''uuid'', dt_uuid), (''varchar'', dt_varchar), (''varint'', dt_varint),
      (''timeuuid'', dt_timeuuid), (''inet'', dt_inet), (''list'', dt_list),
      (''map'', dt_map), (''set'', dt_set)]"

definition getByName :: "string \<Rightarrow> error + typeinfo" where
  "getByName name =
     (if CHR ''<'' \<in> set name then Inl OutsideModel
      else case map_of catalog (lower name) of
             None \<Rightarrow> Inl TypeError
           | Some c \<Rightarrow> Inr (Some (Fin c), None))"

text \<open>
  The test \<open>/^[0-9a-f]{8}-[0-9a-f]{4}-[0-9a-f]{4}-[0-9a-f]{4}-[0-9a-f]{12}$/i\<close> of
  \<open>guessDataType\<close>: the pattern is anchored at both ends and its groups have fixed
  lengths, so it fixes the length of the string and the class of each position.
\<close>

definition is_uuid_string :: "string \<Rightarrow> bool" where
  "is_uuid_string s =
     (length s = 36
      \<and> list_all is_hex (take 8 s) \<and> s ! 8 = CHR ''-''
      \<and> list_all is_hex (take 4 (drop 9 s)) \<and> s ! 13 = CHR ''-''
      \<and> list_all is_hex (take 4 (drop 14 s)) \<and> s ! 18 = CHR ''-''
      \<and> list_all is_hex (take 4 (drop 19 s)) \<and> s ! 23 = CHR ''-''
      \<and> list_all is_hex (drop 24 s))"

text \<open>\<open>guessDataType\<close> (lines 190-224): the first matching shape decides.\<close>

definition guessDataType :: "jsval \<Rightarrow> typeinfo option" where
  "guessDataType v =
     (let type = (case v of
          Num _ \<Rightarrow> Some dt_double
        | DateV _ \<Rightarrow> Some dt_timestamp
        | LongV _ \<Rightarrow> Some dt_bigint
        | IntegerV _ \<Rightarrow> Some dt_varint
        | Str s \<Rightarrow> if is_uuid_string s then Some dt_uuid else Some dt_text
        | Buf _ \<Rightarrow> Some dt_blob
        | Arr _ \<Rightarrow> Some dt_list
        | Bool _ \<Rightarrow> Some dt_boolean
        | _ \<Rightarrow> None)
      in case type of None \<Rightarrow> None | Some c \<Rightarrow> Some (Some (Fin c), None))"

section \<open>Scalar encoders\<close>

text \<open>\<open>encodeInt\<close> (lines 229-236).\<close>

definition encodeInt :: "jsval \<Rightarrow> error + byte list" where
  "encodeInt v = (case isNaN v of
       Inl e \<Rightarrow> Inl e
     | Inr nan \<Rightarrow>
         if nan then Inl TypeError
         else (case to_number v of Inl e \<Rightarrow> Inl e | Inr n \<Rightarrow> writeInt32BE n))"

text \<open>
  \<open>encodeFloat\<close> and \<open>encodeDouble\<close> (lines 238-254): the check is the source's, the
  IEEE-754 bytes that \<open>writeFloatBE\<close> and \<open>writeDoubleBE\<close> store are outside the model.
\<close>

definition encodeFloat :: "jsval \<Rightarrow> error + byte list" where
  "encodeFloat v = (case v of Num n \<Rightarrow> Inl OutsideModel | _ \<Rightarrow> Inl TypeError)"

definition encodeDouble :: "jsval \<Rightarrow> error + byte list" where
  "encodeDouble v = (case v of Num n \<Rightarrow> Inl OutsideModel | _ \<Rightarrow> Inl TypeError)"

text \<open>
  \<open>encodeBigNumber\<close> (lines 291-309): a Number goes through \<open>Long.fromNumber\<close>, a
  string through \<open>Long.fromString\<close> (outside the model), a Buffer is taken as it is.
\<close>

definition encodeBigNumber :: "jsval \<Rightarrow> error + byte list" where
  "encodeBigNumber v = (case v of
       Num n \<Rightarrow> Inr (Long_toBuffer (Long_fromNumber n))
     | Str s \<Rightarrow> Inl OutsideModel
     | Buf b \<Rightarrow> Inr b
     | LongV w \<Rightarrow> Inr (Long_toBuffer w)
     | _ \<Rightarrow> Inl TypeError)"

text \<open>
  \<open>encodeTimestamp\<close> (lines 260-273): a string goes through \<open>new Date(string)\<close>
  (outside the model); a Date gives its time value, NaN being an invalid date.
\<close>

definition encodeTimestamp :: "jsval \<Rightarrow> error + byte list" where
  "encodeTimestamp v = (case v of
       Str s \<Rightarrow> Inl OutsideModel
     | DateV t \<Rightarrow> if t = NaN then Inl TypeError else encodeBigNumber (Num t)
     | _ \<Rightarrow> encodeBigNumber v)"

text \<open>\<open>encodeUuid\<close> (lines 278-286).\<close>

definition encodeUuid :: "jsval \<Rightarrow> error + byte list" where
  "encodeUuid v = (case v of
       Str s \<Rightarrow> Inr (uuid_parse s)
     | Buf b \<Rightarrow> Inr b
     | _ \<Rightarrow> Inl TypeError)"

text \<open>
  \<open>encodeVarint\<close> (lines 315-333): a string goes through \<open>Integer.fromString\<close>
  (outside the model).
\<close>

definition encodeVarint :: "jsval \<Rightarrow> error + byte list" where
  "encodeVarint v = (case v of
       Num n \<Rightarrow> Inr (Integer_toBuffer (Integer_fromNumber n))
     | Str s \<Rightarrow> Inl OutsideModel
     | Buf b \<Rightarrow> Inr b
     | IntegerV i \<Rightarrow> Inr (Integer_toBuffer i)
     | _ \<Rightarrow> Inl TypeError)"

text \<open>\<open>encodeString\<close> (lines 335-340); the flag says that the encoding is ascii.\<close>

definition encodeString :: "jsval \<Rightarrow> bool \<Rightarrow> error + byte list" where
  "encodeString v ascii = (case v of
       Str s \<Rightarrow> Inr (if ascii then ascii_encode s else utf8_encode s)
     | _ \<Rightarrow> Inl TypeError)"

text \<open>\<open>encodeBlob\<close> (lines 342-347) and \<open>encodeBoolean\<close> (lines 349-351).\<close>

definition encodeBlob :: "jsval \<Rightarrow> error + byte list" where
  "encodeBlob v = (case v of Buf b \<Rightarrow> Inr b | _ \<Rightarrow> Inl TypeError)"

definition encodeBoolean :: "jsval \<Rightarrow> error + byte list" where
  "encodeBoolean v = Inr [if truthy v then 1 else 0]"

section \<open>Length prefixes and concatenation\<close>

text \<open>
  \<open>getLengthBuffer\<close> (lines 417-429) is called with a Buffer or null, with an array,
  and with a count. A falsy value writes 0, a value with a truthy \<open>length\<close> writes that
  length, any other value is written itself (after conversion to a number). The
  \<open>length\<close> of a plain object is a property lookup and is outside the model.
\<close>

definition length_prop :: "jsval \<Rightarrow> nat option" where
  "length_prop v = (case v of
       Buf b \<Rightarrow> Some (length b)
     | Arr xs \<Rightarrow> Some (length xs)
     | Str s \<Rightarrow> Some (length s)
     | _ \<Rightarrow> None)"

definition getLengthBuffer :: "jsval \<Rightarrow> error + byte list" where
  "getLengthBuffer v =
     (if \<not> truthy v then writeUInt16BE (Fin 0)
      else case v of
          Obj kvs \<Rightarrow> Inl OutsideModel
        | _ \<Rightarrow>
          (case length_prop v of
             Some (Suc n) \<Rightarrow> writeUInt16BE (Fin (of_nat (Suc n)))
           | _ \<Rightarrow> (case to_number v of Inl e \<Rightarrow> Inl e | Inr n \<Rightarrow> writeUInt16BE n)))"

text \<open>The value \<open>bytes\<close> that \<open>encode\<close> returned, as the JavaScript value it is.\<close>

definition of_bytes :: "byte list option \<Rightarrow> jsval" where
  "of_bytes bytes = (case bytes of None \<Rightarrow> Null | Some b \<Rightarrow> Buf b)"

text \<open>
  \<open>Buffer.concat(parts)\<close> (Node 0.12): the total length is computed first, and
  reading the \<open>length\<close> of a null part throws a TypeError; then the empty list gives
  the empty buffer, a single part is returned itself, several parts are copied one
  after the other.
\<close>

definition Buffer_concat :: "byte list option list \<Rightarrow> error + byte list" where
  "Buffer_concat parts =
     (if None \<in> set parts then Inl TypeError else Inr (concat (map the parts)))"

section \<open>The encoder\<close>

text \<open>
  The keys that \<open>for (var key in value)\<close> visits and that pass
  \<open>value.hasOwnProperty(key)\<close>, with their values: the properties of a plain object
  (calling \<open>hasOwnProperty\<close> throws a TypeError when the object has a property of
  that name, which is no function here), the indices of an array and of a string; a
  number, a boolean and a Date have none. The properties of a Buffer, a Long and an
  Integer are library internals and outside the model.
\<close>

function show_nat :: "nat \<Rightarrow> string" where
  "show_nat n =
     (if n < 10 then [char_of (48 + n)]
      else show_nat (n div 10) @ [char_of (48 + n mod 10)])"
  by pat_completeness auto
termination
  by (relation "measure id") auto

declare show_nat.simps [simp del]

definition own_entries :: "jsval \<Rightarrow> error + (string \<times> jsval) list" where
  "own_entries v = (case v of
       Obj kvs \<Rightarrow>
         if ''hasOwnProperty'' \<in> fst ` set kvs then Inl TypeError else Inr kvs
     | Arr xs \<Rightarrow> Inr (zip (map show_nat [0 ..< length xs]) xs)
     | Str s \<Rightarrow> Inr (zip (map show_nat [0 ..< length s]) (map (\<lambda>c. Str [c]) s))
     | Buf b \<Rightarrow> Inl OutsideModel
     | LongV w \<Rightarrow> Inl OutsideModel
     | IntegerV i \<Rightarrow> Inl OutsideModel
     | _ \<Rightarrow> Inr [])"

text \<open>
  Lines 128-145 of \<open>encode\<close>: a truthy hint is turned into a descriptor and its
  \<open>type\<close> must be a number; a falsy hint (absent, 0, NaN, the empty string) makes the
  encoder guess.
\<close>

definition hint_truthy :: "hint \<Rightarrow> bool" where
  "hint_truthy h = (case h of
       NoHint \<Rightarrow> False
     | HNum n \<Rightarrow> truthy (Num n)
     | HName s \<Rightarrow> s \<noteq> []
     | HInfo t st \<Rightarrow> True)"

definition typeInfo_of :: "jsval \<Rightarrow> hint \<Rightarrow> error + jsnum \<times> hint list option" where
  "typeInfo_of v h =
     (if hint_truthy h then
        (case (case h of
                 HNum n \<Rightarrow> Inr (Some n, None)
               | HName s \<Rightarrow> getByName s
               | HInfo t st \<Rightarrow> Inr (t, st)
               | NoHint \<Rightarrow> Inr (None, None)) of
           Inl e \<Rightarrow> Inl e
         | Inr (t, st) \<Rightarrow> (case t of None \<Rightarrow> Inl TypeError | Some n \<Rightarrow> Inr (n, st)))
      else
        (case guessDataType v of
           None \<Rightarrow> Inl TypeError
         | Some (t, st) \<Rightarrow> (case t of None \<Rightarrow> Inl TypeError | Some n \<Rightarrow> Inr (n, st))))"

text \<open>\<open>typeInfo.subtypes ? typeInfo.subtypes[i] : null\<close>.\<close>

definition subtype :: "hint list option \<Rightarrow> nat \<Rightarrow> hint" where
  "subtype st i =
     (case st of None \<Rightarrow> NoHint | Some hs \<Rightarrow> if i < length hs then hs ! i else NoHint)"

text \<open>A scalar encoder returns a Buffer, never null.\<close>

definition returning :: "error + byte list \<Rightarrow> error + byte list option" where
  "returning r = (case r of Inl e \<Rightarrow> Inl e | Inr b \<Rightarrow> Inr (Some b))"

text \<open>
  \<open>encode\<close> (lines 124-183), \<open>encodeList\<close> (lines 353-371) and \<open>encodeMap\<close> (lines
  379-410) call each other. The two loops are \<open>encodeList_items\<close> and
  \<open>encodeMap_entries\<close>; they return the parts pushed, a null part being \<open>None\<close>. The
  recursion ends because a map hint is never guessed and every other call goes to a
  part of the value or to a subtype of the hint: \<open>hdepth\<close> measures the hint.
\<close>

fun hdepth :: "hint \<Rightarrow> nat" where
  "hdepth NoHint = 0"
| "hdepth (HNum n) = 1"
| "hdepth (HName s) = 1"
| "hdepth (HInfo t st) = 2 + (case st of None \<Rightarrow> 0 | Some hs \<Rightarrow> sum_list (map hdepth hs))"

definition encode_measure ::
  "(jsval \<times> hint + jsval \<times> hint list option)
   + (jsval list \<times> hint + (jsval \<times> hint list option + (string \<times> jsval) list \<times> hint \<times> hint))
   \<Rightarrow> nat \<times> nat \<times> nat" where
  "encode_measure =
     case_sum
       (case_sum (\<lambda>(v, h). (hdepth h, size v, 2))
                 (\<lambda>(v, st). (hdepth (subtype st 0), size v, 1)))
       (case_sum (\<lambda>(xs, sub). (hdepth sub, size_list size xs, 0))
          (case_sum (\<lambda>(v, st). (1 + max (hdepth (subtype st 0)) (hdepth (subtype st 1)), 0, 1))
                    (\<lambda>(es, ks, vs). (max (hdepth ks) (hdepth vs),
                                      size_list (\<lambda>p. Suc (size (snd p))) es, 0))))"

lemma hdepth_subtype: "hdepth (subtype (Some hs) i) \<le> sum_list (map hdepth hs)"
proof (cases "i < length hs")
  case True
  then have "hs ! i \<in> set hs" by simp
  then have "hdepth (hs ! i) \<le> sum_list (map hdepth hs)"
    by (simp add: member_le_sum_list)
  with True show ?thesis by (simp add: subtype_def)
next
  case False
  then show ?thesis by (simp add: subtype_def)
qed

lemma guessDataType_None: "guessDataType v = Some (t, st) \<Longrightarrow> st = None"
  by (auto simp: guessDataType_def Let_def split: jsval.splits if_splits option.splits)

lemma guessDataType_not_map: "guessDataType v \<noteq> Some (Some (Fin dt_map), st)"
  by (auto simp: guessDataType_def Let_def dt_defs split: jsval.splits if_splits option.splits)

lemma getByName_None: "getByName s = Inr (t, st) \<Longrightarrow> st = None"
  by (auto simp: getByName_def split: if_splits option.splits)

lemma typeInfo_of_subtype:
  assumes "typeInfo_of v h = Inr (n, st)"
  shows "hdepth (subtype st i) \<le> hdepth h"
proof (cases st)
  case None
  then show ?thesis by (simp add: subtype_def)
next
  case (Some hs)
  with assms obtain t where h: "h = HInfo t (Some hs)"
    by (cases h) (auto simp: typeInfo_of_def hint_truthy_def
        split: if_splits option.splits sum.splits dest: guessDataType_None getByName_None)
  show ?thesis using hdepth_subtype [of hs i] by (simp add: h Some)
qed

lemma typeInfo_of_map_subtype:
  assumes "typeInfo_of v h = Inr (Fin dt_map, st)"
  shows "Suc (hdepth (subtype st i)) \<le> hdepth h"
proof (cases st)
  case None
  have "h \<noteq> NoHint"
    using assms guessDataType_not_map [of v st]
    by (auto simp: typeInfo_of_def hint_truthy_def split: option.splits)
  then have "1 \<le> hdepth h" by (cases h) auto
  with None show ?thesis by (simp add: subtype_def)
next
  case (Some hs)
  with assms obtain t where h: "h = HInfo t (Some hs)"
    by (cases h) (auto simp: typeInfo_of_def hint_truthy_def
        split: if_splits option.splits sum.splits dest: guessDataType_None getByName_None)
  show ?thesis using hdepth_subtype [of hs i] by (simp add: h Some)
qed

function encode :: "jsval \<Rightarrow> hint \<Rightarrow> error + byte list option"
  and encodeList :: "jsval \<Rightarrow> hint list option \<Rightarrow> error + byte list option"
  and encodeList_items :: "jsval list \<Rightarrow> hint \<Rightarrow> error + byte list option list"
  and encodeMap :: "jsval \<Rightarrow> hint list option \<Rightarrow> error + byte list option"
  and encodeMap_entries :: "(string \<times> jsval) list \<Rightarrow> hint \<Rightarrow> hint \<Rightarrow> error + byte list option list"
where
  "encode v h =
     (if v = Null \<or> v = Undefined then Inr None
      else case typeInfo_of v h of
          Inl e \<Rightarrow> Inl e
        | Inr (n, st) \<Rightarrow>
            if n = Fin dt_int then returning (encodeInt v)
            else if n = Fin dt_float then returning (encodeFloat v)
            else if n = Fin dt_double then returning (encodeDouble v)
            else if n = Fin dt_boolean then returning (encodeBoolean v)
            else if n = Fin dt_text \<or> n = Fin dt_varchar then returning (encodeString v False)
            else if n = Fin dt_ascii then returning (encodeString v True)
            else if n = Fin dt_uuid \<or> n = Fin dt_timeuuid then returning (encodeUuid v)
            else if n = Fin dt_custom \<or> n = Fin dt_decimal \<or> n = Fin dt_inet \<or> n = Fin dt_blob
              then returning (encodeBlob v)
            else if n = Fin dt_bigint \<or> n = Fin dt_counter then returning (encodeBigNumber v)
            else if n = Fin dt_timestamp then returning (encodeTimestamp v)
            else if n = Fin dt_varint then returning (encodeVarint v)
            else if n = Fin dt_list \<or> n = Fin dt_set then encodeList v st
            else if n = Fin dt_map then encodeMap v st
            else Inl TypeError)"
| "encodeList v st =
     (case v of
        Arr xs \<Rightarrow>
          if xs = [] then Inr None
          else (case getLengthBuffer v of
                  Inl e \<Rightarrow> Inl e
                | Inr lb \<Rightarrow>
                    (case encodeList_items xs (subtype st 0) of
                       Inl e \<Rightarrow> Inl e
                     | Inr parts \<Rightarrow> returning (Buffer_concat (Some lb # parts))))
      | _ \<Rightarrow> Inl TypeError)"
| "encodeList_items [] sub = Inr []"
| "encodeList_items (x # xs) sub =
     (case encode x sub of
        Inl e \<Rightarrow> Inl e
      | Inr bytes \<Rightarrow>
          (case getLengthBuffer (of_bytes bytes) of
             Inl e \<Rightarrow> Inl e
           | Inr lb \<Rightarrow>
               (case encodeList_items xs sub of
                  Inl e \<Rightarrow> Inl e
                | Inr parts \<Rightarrow> Inr (Some lb # bytes # parts))))"
| "encodeMap v st =
     (case own_entries v of
        Inl e \<Rightarrow> Inl e
      | Inr es \<Rightarrow>
          (case encodeMap_entries es (subtype st 0) (subtype st 1) of
             Inl e \<Rightarrow> Inl e
           | Inr parts \<Rightarrow>
               (case getLengthBuffer (Num (Fin (of_nat (length es)))) of
                  Inl e \<Rightarrow> Inl e
                | Inr lb \<Rightarrow> returning (Buffer_concat (Some lb # parts)))))"
| "encodeMap_entries [] ks vs = Inr []"
| "encodeMap_entries ((key, x) # es) ks vs =
     (case encode (Str key) ks of
        Inl e \<Rightarrow> Inl e
      | Inr keyBuffer \<Rightarrow>
          (case getLengthBuffer (of_bytes keyBuffer) of
             Inl e \<Rightarrow> Inl e
           | Inr klb \<Rightarrow>
               (case encode x vs of
                  Inl e \<Rightarrow> Inl e
                | Inr valueBuffer \<Rightarrow>
                    (case getLengthBuffer (of_bytes valueBuffer) of
                       Inl e \<Rightarrow> Inl e
                     | Inr vlb \<Rightarrow>
                         (case encodeMap_entries es ks vs of
                            Inl e \<Rightarrow> Inl e
                          | Inr parts \<Rightarrow>
                              Inr ([Some klb, keyBuffer, Some vlb]
                                   @ (if valueBuffer \<noteq> None then [valueBuffer] else [])
                                   @ parts))))))"
  by pat_completeness auto

termination
proof (relation "inv_image (less_than <*lex*> less_than <*lex*> less_than) encode_measure",
    goal_cases)
  case 1
  then show ?case by (intro wf_inv_image wf_lex_prod wf_less_than)
next
  case (2 v h b x y)
  then have "typeInfo_of v h = Inr (x, y)" by simp
  from typeInfo_of_subtype [OF this, of 0] show ?case
    by (auto simp: encode_measure_def)
next
  case (3 v h b x y)
  then have "typeInfo_of v h = Inr (Fin dt_map, y)" by auto
  from typeInfo_of_map_subtype [OF this, of 0] typeInfo_of_map_subtype [OF this, of 1]
  show ?case by (auto simp: encode_measure_def)
next
  case (4 v st x7 b)
  then show ?case by (simp add: encode_measure_def)
next
  case 5
  then show ?case by (simp add: encode_measure_def)
next
  case 6
  then show ?case by (simp add: encode_measure_def)
next
  case 7
  then show ?case by (simp add: encode_measure_def)
next
  case 8
  then show ?case by (auto simp: encode_measure_def)
next
  case 9
  then show ?case by (auto simp: encode_measure_def)
next
  case 10
  then show ?case by (simp add: encode_measure_def)
qed

section \<open>The routing key\<close>

text \<open>
  The fields of the options object that \<open>setRoutingKey\<close> reads or writes; every other
  field is in the extension of the record. \<open>routingIndexes\<close> is \<open>None\<close> when the field
  is no array, \<open>hints\<close> is \<open>None\<close> when the field is falsy.
\<close>

record options =
  routingKey :: jsval
  routingIndexes :: "nat list option"
  hints :: "hint list option"

text \<open>
  \<open>buf.writeInt16BE(value, index)\<close> (Node 0.12), within the buffer: a value above
  32767 or below -32768 throws a TypeError.
\<close>

definition writeInt16BE :: "jsnum \<Rightarrow> error + byte list" where
  "writeInt16BE n = (case n of
       NaN \<Rightarrow> Inr (be16 0)
     | PosInf \<Rightarrow> Inl TypeError
     | NegInf \<Rightarrow> Inl TypeError
     | Fin q \<Rightarrow> if q > 32767 \<or> q < - 32768 then Inl TypeError else Inr (be16 (trunc q)))"

text \<open>
  The first loop of the composite branch (lines 445-447) adds up the lengths: reading
  the \<open>length\<close> of null or undefined throws a TypeError. An item that is neither a
  Buffer nor null is outside the model.
\<close>

fun totalLength :: "jsval list \<Rightarrow> error + nat" where
  "totalLength [] = Inr 0"
| "totalLength (item # items) =
     (case item of
        Buf b \<Rightarrow> (case totalLength items of
                    Inl e \<Rightarrow> Inl e
                  | Inr n \<Rightarrow> Inr (2 + length b + 1 + n))
      | Null \<Rightarrow> Inl TypeError
      | Undefined \<Rightarrow> Inl TypeError
      | _ \<Rightarrow> Inl OutsideModel)"

text \<open>
  The second loop (lines 451-458) writes, for each item, its length, its bytes and a
  zero byte. The result is the content of the buffer of \<open>totalLength\<close> bytes.
\<close>

fun writeItems :: "jsval list \<Rightarrow> error + byte list" where
  "writeItems [] = Inr []"
| "writeItems (item # items) =
     (case item of
        Buf b \<Rightarrow>
          (case writeInt16BE (Fin (of_nat (length b))) of
             Inl e \<Rightarrow> Inl e
           | Inr lb \<Rightarrow>
               (case writeItems items of
                  Inl e \<Rightarrow> Inl e
                | Inr bs \<Rightarrow> Inr (lb @ b @ [0] @ bs)))
      | _ \<Rightarrow> Inl OutsideModel)"

text \<open>
  The outcome of \<open>setRoutingKey\<close>: the options object as the call leaves it, and the
  exception thrown, if any.
\<close>

type_synonym 'a outcome = "'a options_scheme \<times> error option"

text \<open>Lines 438-462: \<open>options.routingKey\<close> is the array \<open>items\<close>.\<close>

definition setRoutingKey_array :: "jsval list \<Rightarrow> 'a options_scheme \<Rightarrow> 'a outcome" where
  "setRoutingKey_array items options =
     (if length items = 1 then (options\<lparr>routingKey := hd items\<rparr>, None)
      else case totalLength items of
          Inl e \<Rightarrow> (options, Some e)
        | Inr n \<Rightarrow>
            (case writeItems items of
               Inl e \<Rightarrow> (options, Some e)
             | Inr bs \<Rightarrow> (options\<lparr>routingKey := Buf bs\<rparr>, None)))"

text \<open>\<open>params[i]\<close> and \<open>hints[i]\<close>: undefined beyond the end of the array.\<close>

definition param_at :: "jsval list \<Rightarrow> nat \<Rightarrow> jsval" where
  "param_at ps i = (if i < length ps then ps ! i else Undefined)"

definition hint_at :: "hint list \<Rightarrow> nat \<Rightarrow> hint" where
  "hint_at hs i = (if i < length hs then hs ! i else NoHint)"

text \<open>The loop of lines 476-478: the first failing \<open>encode\<close> ends it.\<close>

fun encodeParams :: "jsval list \<Rightarrow> hint list \<Rightarrow> nat list \<Rightarrow> error + byte list option list" where
  "encodeParams ps hs [] = Inr []"
| "encodeParams ps hs (paramIndex # r) =
     (case encode (param_at ps paramIndex) (hint_at hs paramIndex) of
        Inl e \<Rightarrow> Inl e
      | Inr bytes \<Rightarrow>
          (case encodeParams ps hs r of
             Inl e \<Rightarrow> Inl e
           | Inr routingKeys \<Rightarrow> Inr (bytes # routingKeys)))"

text \<open>
  \<open>setRoutingKey\<close> (lines 437-489). \<open>params\<close> is \<open>None\<close> when the argument is falsy.
  The call of line 488 finds the array it has just installed, with two or more
  entries, and so runs lines 438-462.
\<close>

definition setRoutingKey :: "jsval list option \<Rightarrow> 'a options_scheme \<Rightarrow> 'a outcome" where
  "setRoutingKey params options =
     (case routingKey options of
        Arr items \<Rightarrow> setRoutingKey_array items options
      | Buf b \<Rightarrow> (options, None)
      | _ \<Rightarrow>
          (case routingIndexes options of
             None \<Rightarrow> (options, None)
           | Some indexes \<Rightarrow>
               (case params of
                  None \<Rightarrow> (options, None)
                | Some ps \<Rightarrow>
                    if ps = [] then (options, None)
                    else (case encodeParams ps (case hints options of None \<Rightarrow> [] | Some hs \<Rightarrow> hs)
                                 indexes of
                            Inl e \<Rightarrow> (options, Some e)
                          | Inr routingKeys \<Rightarrow>
                              if routingKeys = [] then (options, None)
                              else if length routingKeys = 1
                                then (options\<lparr>routingKey := of_bytes (hd routingKeys)\<rparr>, None)
                              else setRoutingKey_array (map of_bytes routingKeys)
                                     (options\<lparr>routingKey := Arr (map of_bytes routingKeys)\<rparr>)))))"

section \<open>The decoder\<close>













section \<open>The words of the specification\<close>

text \<open>
  The textual grammar of a UUID in the words of the specification: 36 characters,
  hyphens at the positions 8, 13, 18 and 23, a hexadecimal digit of either case at
  every other position.
\<close>

definition uuid_grammar :: "string \<Rightarrow> bool" where
  "uuid_grammar s =
     (length s = 36 \<and>
      (\<forall>i < 36. if i \<in> {8, 13, 18, 23} then s ! i = CHR ''-''
                 else s ! i \<in> set ''0123456789abcdefABCDEF''))"


section \<open>Properties of type inference\<close>

lemma is_hex_range: "is_hex c = (of_char c \<in> {48..57} \<union> {97..102} \<union> {65..(70::nat)})"
  by (auto simp: is_hex_def hex_val_def Let_def)

lemma hex_chars_range:
  "c \<in> set ''0123456789abcdefABCDEF'' \<longleftrightarrow> (of_char c \<in> {48..57} \<union> {97..102} \<union> {65..(70::nat)})"
proof -
  have eq: "\<And>d. c = d \<longleftrightarrow> (of_char c :: nat) = of_char d" by auto
  have "(of_char c :: nat) \<in> {48..57} \<longleftrightarrow> (of_char c :: nat) \<in> {48,49,50,51,52,53,54,55,56,57}"
    by simp arith
  moreover have "(of_char c :: nat) \<in> {97..102} \<longleftrightarrow> (of_char c :: nat) \<in> {97,98,99,100,101,102}"
    by simp arith
  moreover have "(of_char c :: nat) \<in> {65..70} \<longleftrightarrow> (of_char c :: nat) \<in> {65,66,67,68,69,70}"
    by simp arith
  ultimately show ?thesis
    by (simp add: eq)
qed

lemma is_hex_iff: "is_hex c = (c \<in> set ''0123456789abcdefABCDEF'')"
  by (simp only: is_hex_range hex_chars_range)

lemma len36:
  assumes "length (s :: 'a list) = 36"
  obtains c0 c1 c2 c3 c4 c5 c6 c7 c8 c9 c10 c11 c12 c13 c14 c15 c16 c17
    c18 c19 c20 c21 c22 c23 c24 c25 c26 c27 c28 c29 c30 c31 c32 c33 c34 c35
  where "s = [c0, c1, c2, c3, c4, c5, c6, c7, c8, c9, c10, c11, c12, c13, c14, c15, c16, c17,
    c18, c19, c20, c21, c22, c23, c24, c25, c26, c27, c28, c29, c30, c31, c32, c33, c34, c35]"
  using assms by (auto simp: eval_nat_numeral length_Suc_conv)

lemma all_less_36:
  "(\<forall>i<36. P (i::nat)) \<longleftrightarrow> list_all P [0..<36]"
  by (auto simp: list_all_iff)

lemma is_uuid_string_grammar: "is_uuid_string s = uuid_grammar s"
proof (cases "length s = 36")
  case False
  then show ?thesis by (simp add: is_uuid_string_def uuid_grammar_def)
next
  case True
  then obtain c0 c1 c2 c3 c4 c5 c6 c7 c8 c9 c10 c11 c12 c13 c14 c15 c16 c17
    c18 c19 c20 c21 c22 c23 c24 c25 c26 c27 c28 c29 c30 c31 c32 c33 c34 c35
  where s: "s = [c0, c1, c2, c3, c4, c5, c6, c7, c8, c9, c10, c11, c12, c13, c14, c15, c16, c17,
    c18, c19, c20, c21, c22, c23, c24, c25, c26, c27, c28, c29, c30, c31, c32, c33, c34, c35]"
    by (rule len36)
  have upt36: "[0..<36] = [0,1,2,3,4,5,6,7,8,9,10,11,12,13,14,15,16,17,18,19,20,21,22,23,24,25,26,27,28,29,30,31,32,33,34,35::nat]"
    by (simp add: upt_rec)
  show ?thesis
    unfolding is_uuid_string_def uuid_grammar_def all_less_36 upt36 s is_hex_iff [symmetric]
    by (simp del: set_simps)
qed

text \<open>
  Claim C6: with no hint, every Number is guessed as double (which is neither int nor
  float), a Date as timestamp, a Long as bigint, an Integer as varint, a string as
  text unless it matches the UUID grammar, in which case as uuid, a Buffer as blob, an
  array as list, a boolean as boolean, and a plain object gives no match.
\<close>

theorem guessDataType_rules:
  "guessDataType (Num n) = Some (Some (Fin dt_double), None)
   \<and> dt_double \<noteq> dt_int \<and> dt_double \<noteq> dt_float
   \<and> guessDataType (DateV t) = Some (Some (Fin dt_timestamp), None)
   \<and> guessDataType (LongV w) = Some (Some (Fin dt_bigint), None)
   \<and> guessDataType (IntegerV i) = Some (Some (Fin dt_varint), None)
   \<and> guessDataType (Str s) = Some (Some (Fin (if uuid_grammar s then dt_uuid else dt_text)), None)
   \<and> guessDataType (Buf b) = Some (Some (Fin dt_blob), None)
   \<and> guessDataType (Arr xs) = Some (Some (Fin dt_list), None)
   \<and> guessDataType (Bool bl) = Some (Some (Fin dt_boolean), None)
   \<and> guessDataType (Obj kvs) = None"
  by (simp add: guessDataType_def is_uuid_string_grammar dt_double_def dt_int_def dt_float_def)

theorem guessDataType_rules_witness:
  "uuid_grammar ''2d5db74c-c2da-4e59-b5ec-d8ad3d0aefb9''
   \<and> guessDataType (Str ''2d5db74c-c2da-4e59-b5ec-d8ad3d0aefb9'') = Some (Some (Fin dt_uuid), None)
   \<and> \<not> uuid_grammar ''a string''
   \<and> guessDataType (Str ''a string'') = Some (Some (Fin dt_text), None)
   \<and> guessDataType (Num (Fin 1)) = Some (Some (Fin dt_double), None)
   \<and> guessDataType (Obj []) = None"
proof -
  have g: "uuid_grammar ''2d5db74c-c2da-4e59-b5ec-d8ad3d0aefb9''"
    by (simp add: is_uuid_string_grammar [symmetric] is_uuid_string_def is_hex_def hex_val_def)
  have ng: "\<not> uuid_grammar ''a string''"
    by (simp add: uuid_grammar_def)
  show ?thesis
    using g ng
      guessDataType_rules [where s = "''2d5db74c-c2da-4e59-b5ec-d8ad3d0aefb9''" and n = "Fin 1"
        and kvs = "[]"]
      guessDataType_rules [where s = "''a string''"]
    by simp
qed

section \<open>Properties of the encoder\<close>

text \<open>
  Claim C5: a null or undefined value encodes to null under every hint, whatever its
  shape, and so does the call without arguments: no error, no empty buffer.
\<close>

theorem encode_null_value:
  "encode Null h = Inr None \<and> encode Undefined h = Inr None
   \<and> encode Undefined NoHint = Inr None"
  by simp

text \<open>
  Claim C10: under a map hint of any shape, a value without own enumerable properties
  encodes to the two bytes of the count zero, not to null, whereas the empty array
  under a list or set hint encodes to null.
\<close>

theorem encodeMap_no_properties:
  assumes "own_entries v = Inr []" and "v \<noteq> Null" and "v \<noteq> Undefined"
    and "typeInfo_of v h = Inr (Fin dt_map, st)"
  shows "encode v h = Inr (Some [0, 0])
         \<and> encode (Arr []) (HNum (Fin dt_list)) = Inr None
         \<and> encode (Arr []) (HNum (Fin dt_set)) = Inr None"
  using assms
  by (simp add: typeInfo_of_def hint_truthy_def dt_defs getLengthBuffer_def
      writeUInt16BE_def be16_def trunc_def returning_def Buffer_concat_def)

theorem encodeMap_no_properties_witness:
  "own_entries (Obj []) = Inr []
   \<and> typeInfo_of (Obj []) (HName ''map'') = Inr (Fin dt_map, None)
   \<and> encode (Obj []) (HName ''map'') = Inr (Some [0, 0])"
proof -
  have e: "own_entries (Obj []) = Inr []"
    by (simp add: own_entries_def)
  have t: "typeInfo_of (Obj []) (HName ''map'') = Inr (Fin dt_map, None)"
    by (simp add: typeInfo_of_def hint_truthy_def getByName_def catalog_def lower_def)
  show ?thesis
    using e t encodeMap_no_properties [OF e _ _ t] by simp
qed

text \<open>
  Claim C3: the empty array under a list hint encodes to null. A null element of a
  non-empty array gets its zero length prefix, but the null itself is pushed as a part
  too, and \<open>Buffer.concat\<close> throws a TypeError on it: no buffer is returned. The map
  encoder, which leaves a null value out of the parts, returns the framed buffer.
\<close>

theorem encodeList_null_element:
  "encode (Arr []) (HNum (Fin dt_list)) = Inr None
   \<and> encode (Arr [Num (Fin 1), Null]) (HInfo (Some (Fin dt_list)) (Some [HNum (Fin dt_int)]))
       = Inl TypeError
   \<and> encode (Obj [(''a'', Null)]) (HNum (Fin dt_map)) = Inr (Some [0, 1, 0, 1, 97, 0, 0])"
  by (simp add: typeInfo_of_def hint_truthy_def dt_defs subtype_def getLengthBuffer_def
      length_prop_def writeUInt16BE_def be16_def trunc_def returning_def Buffer_concat_def
      encodeInt_def isNaN_def writeInt32BE_def be32_def of_bytes_def own_entries_def
      guessDataType_def is_uuid_string_def encodeString_def utf8_encode_def)

section \<open>Properties of the routing key\<close>










text \<open>
  Claim C8, as amended: when \<open>options.routingKey\<close> is no array, and it is a single
  buffer, or \<open>options.routingIndexes\<close> is absent, or the parameters are absent or
  empty, then \<open>setRoutingKey\<close> returns without an error and leaves every field of
  the options as it was, the fields of the record extension included.
\<close>

theorem setRoutingKey_noop:
  assumes "\<forall>items. routingKey options \<noteq> Arr items"
    and "(\<exists>b. routingKey options = Buf b) \<or> routingIndexes options = None
         \<or> params = None \<or> params = Some []"
  shows "setRoutingKey params options = (options, None)"
  using assms
  by (cases "routingKey options")
     (auto simp: setRoutingKey_def split: option.splits)

theorem setRoutingKey_noop_witness:
  "setRoutingKey (Some [Num (Fin 1), Str ''text''])
     \<lparr>routingKey = Buf [1, 2, 3, 4], routingIndexes = Some [1], hints = None\<rparr>
   = (\<lparr>routingKey = Buf [1, 2, 3, 4], routingIndexes = Some [1], hints = None\<rparr>, None)"
  using setRoutingKey_noop [where options = "\<lparr>routingKey = Buf [1, 2, 3, 4],
      routingIndexes = Some [1], hints = None\<rparr>" and params = "Some [Num (Fin 1), Str ''text'']"]
  by simp

text \<open>
  The array branch comes first: with \<open>routingIndexes\<close> absent, an array of one
  buffer is still replaced by that buffer.
\<close>

theorem setRoutingKey_noop_counterexample:
  "setRoutingKey (Some [Num (Fin 1), Str ''text''])
     \<lparr>routingKey = Arr [Buf [1]], routingIndexes = None, hints = None\<rparr>
   = (\<lparr>routingKey = Buf [1], routingIndexes = None, hints = None\<rparr>, None)
   \<and> \<lparr>routingKey = Buf [1], routingIndexes = None, hints = None\<rparr>
     \<noteq> \<lparr>routingKey = Arr [Buf [1]], routingIndexes = None, hints = None\<rparr>"
  by (simp add: setRoutingKey_def setRoutingKey_array_def)

lemma encodeParams_failure:
  assumes "i \<in> set indexes" and "encode (param_at ps i) (hint_at hs i) = Inl e"
  shows "\<exists>j e'. j \<in> set indexes \<and> encode (param_at ps j) (hint_at hs j) = Inl e'
           \<and> encodeParams ps hs indexes = Inl e'"
  using assms
proof (induction indexes)
  case Nil
  then show ?case by simp
next
  case (Cons k ks)
  show ?case
  proof (cases "encode (param_at ps k) (hint_at hs k)")
    case (Inl e1)
    then have "encodeParams ps hs (k # ks) = Inl e1" by simp
    with Inl show ?thesis by (intro exI [of _ k] exI [of _ e1]) simp
  next
    case (Inr bytes)
    with Cons.prems have "i \<in> set ks" by auto
    from Cons.IH [OF this Cons.prems(2)] obtain j e'
      where j: "j \<in> set ks" "encode (param_at ps j) (hint_at hs j) = Inl e'"
        "encodeParams ps hs ks = Inl e'" by blast
    from Inr j(3) have "encodeParams ps hs (k # ks) = Inl e'" by simp
    with j show ?thesis by (intro exI [of _ j] exI [of _ e']) simp
  qed
qed


text \<open>
  Claim C9: when the key is built from \<open>routingIndexes\<close> and the encoding of a
  selected parameter fails, under its hint or under the guessed type, then
  \<open>setRoutingKey\<close> throws the error of the first selected parameter that fails, and
  the options are as they were: no routing key is installed.
\<close>

theorem setRoutingKey_encode_failure:
  assumes "\<forall>items. routingKey options \<noteq> Arr items" and "\<forall>b. routingKey options \<noteq> Buf b"
    and "routingIndexes options = Some indexes" and "ps \<noteq> []"
    and "hs = (case hints options of None \<Rightarrow> [] | Some hs \<Rightarrow> hs)"
    and "i \<in> set indexes" and "encode (param_at ps i) (hint_at hs i) = Inl e"
  shows "\<exists>j e'. j \<in> set indexes \<and> encode (param_at ps j) (hint_at hs j) = Inl e'
           \<and> setRoutingKey (Some ps) options = (options, Some e')"
proof -
  from encodeParams_failure [OF assms(6,7)] obtain j e'
    where j: "j \<in> set indexes" "encode (param_at ps j) (hint_at hs j) = Inl e'"
      "encodeParams ps hs indexes = Inl e'" by blast
  have "setRoutingKey (Some ps) options = (options, Some e')"
    using assms(1-5) j(3)
    by (cases "routingKey options") (simp_all add: setRoutingKey_def)
  with j show ?thesis by blast
qed


lemma int_hint: "typeInfo_of v (HName ''int'') = Inr (Fin dt_int, None)"
  by (simp add: typeInfo_of_def hint_truthy_def getByName_def catalog_def lower_def)

lemma encode_text_as_int:
  "encode (Str ''this is text'') (HName ''int'') = Inl TypeError"
  by (simp add: int_hint encodeInt_def isNaN_def str_to_number_def trim_def is_ws_def
      str_decimal_def unsigned_decimal_def is_digit_def returning_def)

theorem setRoutingKey_encode_failure_witness:
  "encode (param_at [Str ''this is text''] 0) (hint_at [HName ''int''] 0) = Inl TypeError
   \<and> (\<exists>j e'. j \<in> set [0] \<and> encode (param_at [Str ''this is text''] j) (hint_at [HName ''int''] j) = Inl e'
       \<and> setRoutingKey (Some [Str ''this is text''])
         \<lparr>routingKey = Undefined, routingIndexes = Some [0], hints = Some [HName ''int'']\<rparr>
       = (\<lparr>routingKey = Undefined, routingIndexes = Some [0], hints = Some [HName ''int'']\<rparr>,
          Some e'))"
proof -
  have e: "encode (param_at [Str ''this is text''] 0) (hint_at [HName ''int''] 0) = Inl TypeError"
    by (simp add: param_at_def hint_at_def encode_text_as_int del: encode.simps)
  show ?thesis
    using e setRoutingKey_encode_failure [where options = "\<lparr>routingKey = Undefined,
        routingIndexes = Some [0], hints = Some [HName ''int'']\<rparr>" and indexes = "[0]"
        and ps = "[Str ''this is text'']" and hs = "[HName ''int'']" and i = 0 and e = TypeError]
    by simp
qed






section \<open>Properties of the int encoder\<close>
















section \<open>Round trip of the scalar types\<close>























end
